theory Spec2Isabelle
  imports
    Main
    "HOL-Library.Sublist"
    "HOL-Library.Multiset"
    "HOL-Library.Char_ord"
    "HOL-Library.List_Lexorder"
    "HOL-Library.Product_Lexorder"
begin

section \<open>Python strings\<close>

text \<open>
  The program is \<^verbatim>\<open>src/main.py\<close>. Its strings are modelled as \<^typ>\<open>string\<close>, read as
  ASCII text: the definitions below follow what \<^verbatim>\<open>str.strip\<close>, \<^verbatim>\<open>str.split\<close>,
  \<^verbatim>\<open>str.upper\<close>, \<^verbatim>\<open>str.lower\<close> and \<^verbatim>\<open>in\<close> do on code points below 128. A
  character from 128 on is treated as a letter without case that is not whitespace.
\<close>

text \<open>
  \<^verbatim>\<open>str.isspace\<close> on ASCII: tab, line feed, vertical tab, form feed, carriage return,
  the four separators 0x1C to 0x1F, and the space.
\<close>

definition is_space :: "char \<Rightarrow> bool" where
  "is_space c \<longleftrightarrow> c \<in> {CHR 0x09, CHR 0x0A, CHR 0x0B, CHR 0x0C, CHR 0x0D,
                          CHR 0x1C, CHR 0x1D, CHR 0x1E, CHR 0x1F, CHR '' ''}"

definition lstrip :: "string \<Rightarrow> string" where
  "lstrip s = dropWhile is_space s"

definition rstrip :: "string \<Rightarrow> string" where
  "rstrip s = rev (dropWhile is_space (rev s))"

text \<open>\<^verbatim>\<open>s.strip()\<close>\<close>

definition strip :: "string \<Rightarrow> string" where
  "strip s = rstrip (lstrip s)"

definition is_lower :: "char \<Rightarrow> bool" where
  "is_lower c \<longleftrightarrow> (97::nat) \<le> of_char c \<and> of_char c \<le> (122::nat)"


definition upper_char :: "char \<Rightarrow> char" where
  "upper_char c = (if is_lower c then char_of (of_char c - (32::nat)) else c)"


text \<open>\<^verbatim>\<open>s.upper()\<close> and \<^verbatim>\<open>s.lower()\<close>\<close>

definition upper :: "string \<Rightarrow> string" where
  "upper s = map upper_char s"


text \<open>
  \<^verbatim>\<open>s.split(sep)\<close> with a separator given: the pieces between the occurrences of
  \<^verbatim>\<open>sep\<close>, found from the left and not overlapping; the result is never empty
  (\<^verbatim>\<open>"".split(",")\<close> is \<^verbatim>\<open>[""]\<close>). The program calls it with \<^verbatim>\<open>","\<close>,
  \<^verbatim>\<open>" "\<close>, \<^verbatim>\<open>";"\<close> and \<^verbatim>\<open>"-HW"\<close> only; the empty separator, where Python raises
  ValueError, does not occur.
\<close>

fun py_split :: "string \<Rightarrow> string \<Rightarrow> string list" where
  "py_split sep [] = [[]]"
| "py_split sep (x # xs) =
     (if prefix sep (x # xs) then [] # py_split sep (drop (length sep - 1) xs)
      else (case py_split sep xs of
              [] \<Rightarrow> [[x]]
            | w # ws \<Rightarrow> (x # w) # ws))"

text \<open>\<^verbatim>\<open>sub in s\<close>\<close>

fun py_in :: "string \<Rightarrow> string \<Rightarrow> bool" where
  "py_in sub [] = (sub = [])"
| "py_in sub (x # xs) = (prefix sub (x # xs) \<or> py_in sub xs)"

text \<open>The exceptions that the modelled code raises.\<close>

datatype py_error = KeyError | ValueError | TypeError | RuntimeError

text \<open>\<^verbatim>\<open>sep.join(xs)\<close>\<close>

fun py_join :: "string \<Rightarrow> string list \<Rightarrow> string" where
  "py_join sep [] = []"
| "py_join sep [x] = x"
| "py_join sep (x # y # ys) = x @ sep @ py_join sep (y # ys)"

section \<open>Python values in table cells\<close>

text \<open>
  A cell of a pandas table, or any value handed to a function that tests its argument
  with \<^verbatim>\<open>isinstance\<close>: a string, an integral number, the missing value NaN,
  \<^verbatim>\<open>None\<close>, or a list of strings (the link lists of the "Upgrade Path" column).
\<close>

datatype pyval = Str string | Num int | NaN | NoneV | Links "string list"

fun isinstance_str :: "pyval \<Rightarrow> bool" where
  "isinstance_str (Str s) = True"
| "isinstance_str v = False"

section \<open>Key normalizer\<close>

text \<open>
  \<^verbatim>\<open>normalize_product_to_key\<close> (lines 21 to 33). Each \<^verbatim>\<open>split(...)[0]\<close> is the
  head of a list that \<open>py_split_not_Nil\<close> shows to be non-empty, so the index never
  raises.
\<close>

definition normalize_product_to_key :: "pyval \<Rightarrow> string" where
  "normalize_product_to_key v =
     (case v of
        Str s0 \<Rightarrow>
          (let s1 = strip s0;
               s2 = strip (hd (py_split '','' s1));
               s3 = hd (py_split '' '' s2);
               s4 = (if py_in ''-HW'' s3 then hd (py_split ''-HW'' s3) else s3)
           in upper s4)
      | _ \<Rightarrow> [])"

text \<open>
  The normalizer as section 4.1 of the specification words it: trim, keep the text
  before the first comma, keep the first token before a space, truncate at "-HW",
  uppercase.
\<close>

definition before_first_comma :: "string \<Rightarrow> string" where
  "before_first_comma s = takeWhile (\<lambda>c. c \<noteq> CHR '','') s"

definition first_token :: "string \<Rightarrow> string" where
  "first_token s = takeWhile (\<lambda>c. c \<noteq> CHR '' '') s"

fun truncate_at :: "string \<Rightarrow> string \<Rightarrow> string" where
  "truncate_at sub [] = []"
| "truncate_at sub (x # xs) = (if prefix sub (x # xs) then [] else x # truncate_at sub xs)"

definition spec_normalize :: "string \<Rightarrow> string" where
  "spec_normalize s =
     upper (truncate_at ''-HW'' (first_token (before_first_comma (strip s))))"

text \<open>The same with the text before the comma trimmed once more, as line 29 does.\<close>

definition spec_normalize_retrim :: "string \<Rightarrow> string" where
  "spec_normalize_retrim s =
     upper (truncate_at ''-HW'' (first_token (strip (before_first_comma (strip s)))))"

section \<open>Tables\<close>

text \<open>
  \<^verbatim>\<open>str(v)\<close> on a cell. A number prints in decimal, NaN as \<^verbatim>\<open>nan\<close>, \<^verbatim>\<open>None\<close> as
  \<^verbatim>\<open>None\<close>, a list as the \<^verbatim>\<open>repr\<close> of its strings between brackets.
\<close>

fun str_of_nat :: "nat \<Rightarrow> string" where
  "str_of_nat n =
     (if n < 10 then [char_of (48 + n)]
      else str_of_nat (n div 10) @ [char_of (48 + n mod 10)])"

declare str_of_nat.simps [simp del]

definition str_of_int :: "int \<Rightarrow> string" where
  "str_of_int i = (if i < 0 then CHR ''-'' # str_of_nat (nat (- i)) else str_of_nat (nat i))"

definition hex_digit :: "nat \<Rightarrow> char" where
  "hex_digit d = (if d < 10 then char_of (48 + d) else char_of (87 + d))"

definition repr_char :: "char \<Rightarrow> char \<Rightarrow> string" where
  "repr_char quote c =
     (if c = quote \<or> c = CHR 0x5C then [CHR 0x5C, c]
      else if c = CHR 0x09 then [CHR 0x5C, CHR ''t'']
      else if c = CHR 0x0A then [CHR 0x5C, CHR ''n'']
      else if c = CHR 0x0D then [CHR 0x5C, CHR ''r'']
      else if of_char c < (32::nat) \<or> c = CHR 0x7F
        then [CHR 0x5C, CHR ''x'', hex_digit (of_char c div 16), hex_digit (of_char c mod 16)]
      else [c])"

definition py_repr :: "string \<Rightarrow> string" where
  "py_repr s =
     (let quote = (if CHR 0x27 \<in> set s \<and> CHR 0x22 \<notin> set s then CHR 0x22 else CHR 0x27)
      in quote # concat (map (repr_char quote) s) @ [quote])"

fun py_str :: "pyval \<Rightarrow> string" where
  "py_str (Str s) = s"
| "py_str (Num n) = str_of_int n"
| "py_str NaN = ''nan''"
| "py_str NoneV = ''None''"
| "py_str (Links ls) = ''['' @ py_join '', '' (map py_repr ls) @ '']''"

text \<open>\<^verbatim>\<open>isna\<close>: NaN and \<^verbatim>\<open>None\<close> are the missing values.\<close>

fun isna :: "pyval \<Rightarrow> bool" where
  "isna NaN = True"
| "isna NoneV = True"
| "isna v = False"

text \<open>
  A pandas DataFrame: its column labels, and its rows as dictionaries from column label
  to cell (what \<^verbatim>\<open>iterrows\<close> and \<^verbatim>\<open>to_dict(orient="records")\<close> hand out). The row
  index is not modelled; the program resets or ignores it.
\<close>

type_synonym row = "string \<rightharpoonup> pyval"

record dataframe =
  columns :: "string list"
  records :: "row list"

text \<open>\<^verbatim>\<open>pd.DataFrame()\<close>\<close>

definition empty_frame :: dataframe where
  "empty_frame = \<lparr>columns = [], records = []\<rparr>"

text \<open>\<^verbatim>\<open>df.empty\<close>: some axis has length 0.\<close>

definition df_empty :: "dataframe \<Rightarrow> bool" where
  "df_empty df \<longleftrightarrow> columns df = [] \<or> records df = []"

text \<open>\<^verbatim>\<open>row[c]\<close>: a cell that a row lacks under an existing column reads as NaN.\<close>

definition cell :: "row \<Rightarrow> string \<Rightarrow> pyval" where
  "cell r c = (case r c of Some v \<Rightarrow> v | None \<Rightarrow> NaN)"

text \<open>
  \<^verbatim>\<open>df[c] = values\<close> with one value per row: an existing column is overwritten, a new
  one is appended.
\<close>

definition set_column :: "string \<Rightarrow> pyval list \<Rightarrow> dataframe \<Rightarrow> dataframe" where
  "set_column c vals df =
     \<lparr>columns = (if c \<in> set (columns df) then columns df else columns df @ [c]),
      records = map (\<lambda>(r, v). r(c \<mapsto> v)) (zip (records df) vals)\<rparr>"

section \<open>EoL table builder\<close>

text \<open>
  The markup of the first table of the page, as \<^verbatim>\<open>find_all\<close> walks it: the table is
  its \<^verbatim>\<open>tr\<close> rows, a row is its \<^verbatim>\<open>td\<close> cells (a header row of \<^verbatim>\<open>th\<close> cells has
  none), a cell is its \<^verbatim>\<open>a\<close> elements, and an element is the value of its
  \<^verbatim>\<open>href\<close> attribute, if it has one. Tables nested in cells are not modelled.
\<close>

type_synonym html_a = "string option"
type_synonym html_td = "html_a list"
type_synonym html_tr = "html_td list"
type_synonym html_table = "html_tr list"

text \<open>Lines 62 to 66: the non-empty \<^verbatim>\<open>href\<close> values of one cell.\<close>

definition sublinks_of :: "html_td \<Rightarrow> string list" where
  "sublinks_of td =
     foldl (\<lambda>sublinks a. case a of
                             None \<Rightarrow> sublinks
                           | Some href \<Rightarrow> if href \<noteq> [] then sublinks @ [href] else sublinks)
           [] td"

text \<open>Lines 59 to 68: the loop over rows and cells, appending to \<^verbatim>\<open>links\<close>.\<close>

definition scrape_links :: "html_table \<Rightarrow> string list list" where
  "scrape_links table =
     foldl (\<lambda>links row.
              foldl (\<lambda>links td. let sublinks = sublinks_of td
                                 in if sublinks \<noteq> [] then links @ [sublinks] else links)
                    links row)
           [] table"

text \<open>Lines 71 to 77.\<close>

definition attach_links :: "string list list \<Rightarrow> dataframe \<Rightarrow> dataframe" where
  "attach_links links eol_df =
     (if length links = length (records eol_df)
      then set_column ''Upgrade Path'' (map Links links) eol_df
      else (let padded_links = take (length (records eol_df)) links;
                padded_links = padded_links
                  @ replicate (length (records eol_df) - length padded_links) []
            in set_column ''Upgrade Path'' (map Links padded_links) eol_df))"

text \<open>Line 83: the SKU labels of a "Product" cell.\<close>

definition product_parts :: "string \<Rightarrow> string list" where
  "product_parts product_raw =
     map strip (filter (\<lambda>p. strip p \<noteq> []) (py_split '','' product_raw))"

text \<open>Lines 82 to 91: the rows that one row of the table expands into.\<close>

definition expand_row :: "row \<Rightarrow> row list" where
  "expand_row row =
     (let product_raw = py_str (cell row ''Product'');
          parts = product_parts product_raw
      in if parts = [] then [row]
         else map (\<lambda>part. row(''Product'' \<mapsto> Str part)) parts)"

text \<open>Line 96: the key of one expanded row.\<close>

definition product_key_of :: "row \<Rightarrow> pyval" where
  "product_key_of r = Str (normalize_product_to_key (cell r ''Product''))"

text \<open>Line 102: the cell of the "Upgrade Path" column, joined.\<close>

definition joined_upgrade_path :: "row \<Rightarrow> pyval" where
  "joined_upgrade_path r =
     (case cell r ''Upgrade Path'' of Links v \<Rightarrow> Str (py_join ''; '' v) | _ \<Rightarrow> Str [])"

text \<open>
  \<^verbatim>\<open>fetch_eol_table\<close> (lines 36 to 108), on what the two fetches returned: the tables
  that \<^verbatim>\<open>pd.read_html\<close> parsed and the first \<^verbatim>\<open>table\<close> element of the page, if any.
  A failing request raises before any of this runs and is not part of the model. When
  the table has no row, \<^verbatim>\<open>pd.DataFrame([])\<close> has no column and line 96 raises KeyError.
\<close>

definition fetch_eol_table :: "dataframe list \<Rightarrow> html_table option \<Rightarrow> py_error + dataframe" where
  "fetch_eol_table dfs table =
     (case dfs of
        [] \<Rightarrow> Inl RuntimeError
      | df0 # _ \<Rightarrow>
          if ''Product'' \<notin> set (columns df0) then Inl RuntimeError
          else (case table of
                  None \<Rightarrow> Inl RuntimeError
                | Some t \<Rightarrow>
                    (let links = scrape_links t;
                         eol_df = attach_links links df0;
                         expanded_rows = concat (map expand_row (records eol_df))
                     in if expanded_rows = [] then Inl KeyError
                        else
                          (let expanded_df = \<lparr>columns = columns eol_df, records = expanded_rows\<rparr>;
                               expanded_df =
                                 set_column ''ProductKey''
                                   (map product_key_of (records expanded_df)) expanded_df;
                               expanded_df =
                                 expanded_df\<lparr>records :=
                                   filter (\<lambda>r. cell r ''ProductKey'' \<noteq> Str [])
                                     (records expanded_df)\<rparr>;
                               expanded_df =
                                 (if ''Upgrade Path'' \<in> set (columns expanded_df)
                                  then set_column ''Upgrade Path''
                                         (map joined_upgrade_path (records expanded_df))
                                         expanded_df
                                  else expanded_df)
                           in if df_empty expanded_df then Inl RuntimeError
                              else Inr expanded_df))))"

text \<open>
  What the specification says the link extraction yields: for each table row, the link
  targets found in its cells.
\<close>

definition links_per_row :: "html_table \<Rightarrow> string list list" where
  "links_per_row table = map (\<lambda>row. concat (map sublinks_of row)) table"

section \<open>Inventory matcher\<close>

text \<open>
  A device of the inventory, as the inventory call of the dashboard API delivers it: the
  program reads its \<^verbatim>\<open>model\<close>, a string, and its \<^verbatim>\<open>networkId\<close>, a string or
  \<^verbatim>\<open>None\<close>.
\<close>

record device =
  model :: string
  networkId :: "string option"

text \<open>\<^verbatim>\<open>Series.value_counts()\<close>: how often each value occurs, as a dictionary.\<close>

fun value_counts :: "(string \<rightharpoonup> nat) \<Rightarrow> string list \<Rightarrow> (string \<rightharpoonup> nat)" where
  "value_counts counts [] = counts"
| "value_counts counts (k # ks) =
     value_counts (counts(k \<mapsto> (case counts k of None \<Rightarrow> 1 | Some n \<Rightarrow> n + 1))) ks"

text \<open>
  \<^verbatim>\<open>Series.map(counts)\<close> on one cell: the count stored under that value, NaN when there
  is none.
\<close>

definition map_counts :: "(string \<rightharpoonup> nat) \<Rightarrow> pyval \<Rightarrow> pyval" where
  "map_counts counts v =
     (case v of
        Str k \<Rightarrow> (case counts k of Some n \<Rightarrow> Num (int n) | None \<Rightarrow> NaN)
      | _ \<Rightarrow> NaN)"

text \<open>
  Lines 173 to 202 for one organization. \<^verbatim>\<open>sort_values(by=["Total Units"],
  ascending=False)\<close> is called with the default \<^verbatim>\<open>kind\<close>, quicksort, for which pandas
  promises an ordered permutation and no more; the sort is the parameter
  \<open>sort_values\<close>, and \<open>sorts_by_units_desc\<close> is what pandas promises of it.
\<close>

definition org_report ::
  "(row list \<Rightarrow> row list) \<Rightarrow> dataframe \<Rightarrow> device list \<Rightarrow> py_error + dataframe" where
  "org_report sort_values eol_df devices =
     (if devices = [] then Inr empty_frame
      else
        (let inv_assigned = filter (\<lambda>d. networkId d \<noteq> None) devices
         in if inv_assigned = [] then Inr empty_frame
            else
              (let ModelKey = map (\<lambda>d. upper (model d)) inv_assigned;
                   counts = value_counts Map.empty ModelKey
               in if ''ProductKey'' \<notin> set (columns eol_df) then Inl KeyError
                  else
                    (let final_eol =
                           set_column ''Total Units''
                             (map (\<lambda>r. map_counts counts (cell r ''ProductKey''))
                                (records eol_df))
                             eol_df;
                         final_eol =
                           final_eol\<lparr>records :=
                             filter (\<lambda>r. \<not> isna (cell r ''Total Units''))
                               (records final_eol)\<rparr>
                     in if \<not> df_empty final_eol
                        then Inr (final_eol\<lparr>records := sort_values (records final_eol)\<rparr>)
                        else Inr final_eol))))"

text \<open>An entry of the list that \<^verbatim>\<open>build_eol_reports\<close> returns.\<close>

record report_item =
  name :: string
  report :: "dataframe option"

text \<open>
  \<^verbatim>\<open>build_eol_reports\<close>: \<^verbatim>\<open>inventories\<close> is a dictionary from label to devices, read
  in insertion order.
\<close>

fun build_eol_reports ::
  "(row list \<Rightarrow> row list) \<Rightarrow> dataframe \<Rightarrow> (string \<times> device list) list
     \<Rightarrow> py_error + report_item list" where
  "build_eol_reports sort_values eol_df [] = Inr []"
| "build_eol_reports sort_values eol_df ((label, devices) # inventories) =
     (case org_report sort_values eol_df devices of
        Inl e \<Rightarrow> Inl e
      | Inr final_eol \<Rightarrow>
          (case build_eol_reports sort_values eol_df inventories of
             Inl e \<Rightarrow> Inl e
           | Inr reports \<Rightarrow> Inr (\<lparr>name = label, report = Some final_eol\<rparr> # reports)))"

text \<open>The number in the "Total Units" cell of a row.\<close>

definition total_units :: "row \<Rightarrow> int" where
  "total_units r = (case r ''Total Units'' of Some (Num n) \<Rightarrow> n | _ \<Rightarrow> 0)"

text \<open>
  What \<^verbatim>\<open>sort_values\<close> promises whatever its \<^verbatim>\<open>kind\<close>: the rows it is given, ordered
  by "Total Units" descending.
\<close>

definition sorts_by_units_desc :: "(row list \<Rightarrow> row list) \<Rightarrow> bool" where
  "sorts_by_units_desc sort_values \<longleftrightarrow>
     (\<forall>rows. mset (sort_values rows) = mset rows
        \<and> sorted_wrt (\<lambda>a b. total_units b \<le> total_units a) (sort_values rows))"

text \<open>A sort that keeps the promise, to show that the promise can be kept.\<close>

definition stable_sort_desc :: "row list \<Rightarrow> row list" where
  "stable_sort_desc rows = sort_key (\<lambda>r. - total_units r) rows"

text \<open>
  The matcher in the words of sections 3 and 4.3 of the specification: the units of a
  key are the devices with a network whose uppercased model is the key, and the matched
  rows are the catalog rows with at least one unit, in catalog order.
\<close>

definition unit_count :: "device list \<Rightarrow> string \<Rightarrow> nat" where
  "unit_count devices k =
     length (filter (\<lambda>d. networkId d \<noteq> None \<and> upper (model d) = k) devices)"

definition matched_rows :: "dataframe \<Rightarrow> device list \<Rightarrow> row list" where
  "matched_rows eol_df devices =
     concat (map (\<lambda>r. case cell r ''ProductKey'' of
                        Str k \<Rightarrow>
                          if 1 \<le> unit_count devices k
                          then [r(''Total Units'' \<mapsto> Num (int (unit_count devices k)))]
                          else []
                      | _ \<Rightarrow> [])
                 (records eol_df))"

text \<open>
  The inventory of the example in section 8 of the specification, and a catalog of two
  models.
\<close>

definition example_inventory :: "device list" where
  "example_inventory =
     [\<lparr>model = ''MX68'', networkId = Some ''N1''\<rparr>,
      \<lparr>model = ''MX68'', networkId = None\<rparr>,
      \<lparr>model = ''mx68'', networkId = Some ''N2''\<rparr>]"

definition two_key_catalog :: dataframe where
  "two_key_catalog =
     \<lparr>columns = [''Product'', ''ProductKey''],
      records = [[''Product'' \<mapsto> Str ''MX68-HW'', ''ProductKey'' \<mapsto> Str ''MX68''],
                 [''Product'' \<mapsto> Str ''MR18-HW'', ''ProductKey'' \<mapsto> Str ''MR18'']]\<rparr>"

section \<open>Risk classifier\<close>

text \<open>
  A value of the "End-of-Support Date" column as \<^verbatim>\<open>_parse_end_of_support\<close> tells
  values apart: a pandas \<^verbatim>\<open>Timestamp\<close> (it has \<^verbatim>\<open>to_pydatetime\<close>), a
  \<^verbatim>\<open>datetime.date\<close>, a \<^verbatim>\<open>datetime.datetime\<close>, or any other cell, which is read through
  \<^verbatim>\<open>str\<close>. A date is its proleptic Gregorian ordinal (\<^verbatim>\<open>date.toordinal()\<close>), so that
  the difference of two dates in days is the difference of two integers; of a
  \<^verbatim>\<open>Timestamp\<close> and a \<^verbatim>\<open>datetime\<close> only the day is kept.
\<close>

datatype eos_value = Timestamp int | DateValue int | DateTimeValue int | CellValue pyval

fun has_to_pydatetime :: "eos_value \<Rightarrow> bool" where
  "has_to_pydatetime (Timestamp d) = True"
| "has_to_pydatetime v = False"

text \<open>
  \<^verbatim>\<open>datetime\<close> is a subclass of \<^verbatim>\<open>date\<close>, and \<^verbatim>\<open>Timestamp\<close> of \<^verbatim>\<open>datetime\<close>.
\<close>

fun isinstance_datetime :: "eos_value \<Rightarrow> bool" where
  "isinstance_datetime (Timestamp d) = True"
| "isinstance_datetime (DateTimeValue d) = True"
| "isinstance_datetime v = False"

fun isinstance_date :: "eos_value \<Rightarrow> bool" where
  "isinstance_date (DateValue d) = True"
| "isinstance_date v = isinstance_datetime v"

text \<open>What the parser returns: a \<^verbatim>\<open>date\<close>, or a \<^verbatim>\<open>datetime\<close> handed back as it came.\<close>

datatype date_result = ADate int | ADateTime int

fun date_part :: "eos_value \<Rightarrow> int" where
  "date_part (Timestamp d) = d"
| "date_part (DateValue d) = d"
| "date_part (DateTimeValue d) = d"
| "date_part (CellValue v) = 0"

fun returned_as_is :: "eos_value \<Rightarrow> date_result" where
  "returned_as_is (DateValue d) = ADate d"
| "returned_as_is v = ADateTime (date_part v)"

fun str_of_value :: "eos_value \<Rightarrow> string" where
  "str_of_value (CellValue v) = py_str v"
| "str_of_value v = []"

text \<open>
  Lines 246 to 250. \<^verbatim>\<open>datetime.strptime\<close> is the parameter \<open>strptime\<close>: the day of
  the date it reads from a text under a format, \<open>None\<close> where it raises ValueError.
\<close>

fun try_formats :: "(string \<Rightarrow> string \<Rightarrow> int option) \<Rightarrow> string \<Rightarrow> string list \<Rightarrow> date_result option" where
  "try_formats strptime s [] = None"
| "try_formats strptime s (fmt # fmts) =
     (case strptime s fmt of
        Some d \<Rightarrow> Some (ADate d)
      | None \<Rightarrow> try_formats strptime s fmts)"

text \<open>
  \<^verbatim>\<open>_parse_end_of_support\<close> (lines 225 to 252), test by test. \<open>date_part\<close> and
  \<open>str_of_value\<close> are only reached on the values they are meant for.
\<close>

definition parse_end_of_support ::
  "(string \<Rightarrow> string \<Rightarrow> int option) \<Rightarrow> eos_value \<Rightarrow> date_result option" where
  "parse_end_of_support strptime v =
     (if has_to_pydatetime v then Some (ADate (date_part v))
      else if isinstance_date v then Some (returned_as_is v)
      else if isinstance_datetime v then Some (ADate (date_part v))
      else (let s = strip (str_of_value v)
            in if s = [] then None
               else try_formats strptime s [''%b %d, %Y'', ''%B %d, %Y'', ''%Y-%m-%d'']))"

text \<open>
  Lines 383 to 391 of \<^verbatim>\<open>generate_pdf\<close>: the highlight of a row. \<open>Red\<close> is the tier
  EXPIRED of the specification, \<open>Yellow\<close> is AT\_RISK, \<open>NoHighlight\<close> is NORMAL.
  \<^verbatim>\<open>today\<close> is a \<^verbatim>\<open>date\<close>, and Python has no difference of a \<^verbatim>\<open>datetime\<close> and a
  \<^verbatim>\<open>date\<close>: the subtraction raises TypeError.
\<close>

datatype highlight = Red | Yellow | NoHighlight

definition row_highlight ::
  "(string \<Rightarrow> string \<Rightarrow> int option) \<Rightarrow> int \<Rightarrow> eos_value \<Rightarrow> py_error + highlight" where
  "row_highlight strptime today eos_raw =
     (case parse_end_of_support strptime eos_raw of
        None \<Rightarrow> Inr NoHighlight
      | Some (ADateTime d) \<Rightarrow> Inl TypeError
      | Some (ADate eos_date) \<Rightarrow>
          (let days_left = eos_date - today
           in if days_left < 0 then Inr Red
              else if days_left \<le> 365 then Inr Yellow
              else Inr NoHighlight))"

section \<open>Table export\<close>

















section \<open>Characters and strings: facts\<close>

lemma of_char_upper_char:
  "of_char (upper_char c) = (if is_lower c then of_char c - 32 else (of_char c :: nat))"
  by (auto simp: upper_char_def is_lower_def)

lemma of_char_inj_nat: "(of_char c :: nat) = of_char d \<longleftrightarrow> c = d"
  by simp

lemma not_lower_upper_char: "\<not> is_lower (upper_char c)"
  unfolding is_lower_def of_char_upper_char by (auto simp: is_lower_def)

lemma upper_char_eq_comma: "upper_char c = CHR '','' \<longleftrightarrow> c = CHR '',''"
proof -
  have "upper_char c = CHR '','' \<longleftrightarrow> (of_char (upper_char c) :: nat) = of_char (CHR '','')"
    by (simp only: of_char_inj_nat)
  also have "\<dots> \<longleftrightarrow> (of_char c :: nat) = of_char (CHR '','')"
    unfolding of_char_upper_char by (auto simp: is_lower_def)
  also have "\<dots> \<longleftrightarrow> c = CHR '',''"
    by (simp only: of_char_inj_nat)
  finally show ?thesis .
qed

lemma upper_char_eq_space: "upper_char c = CHR '' '' \<longleftrightarrow> c = CHR '' ''"
proof -
  have "upper_char c = CHR '' '' \<longleftrightarrow> (of_char (upper_char c) :: nat) = of_char (CHR '' '')"
    by (simp only: of_char_inj_nat)
  also have "\<dots> \<longleftrightarrow> (of_char c :: nat) = of_char (CHR '' '')"
    unfolding of_char_upper_char by (auto simp: is_lower_def)
  also have "\<dots> \<longleftrightarrow> c = CHR '' ''"
    by (simp only: of_char_inj_nat)
  finally show ?thesis .
qed

lemma is_space_code: "is_space c \<longleftrightarrow> (of_char c :: nat) \<in> {9, 10, 11, 12, 13, 28, 29, 30, 31, 32}"
proof -
  have "is_space c \<longleftrightarrow> (of_char c :: nat) \<in> of_char ` {CHR 0x09, CHR 0x0A, CHR 0x0B, CHR 0x0C, CHR 0x0D,
                          CHR 0x1C, CHR 0x1D, CHR 0x1E, CHR 0x1F, CHR '' ''}"
    unfolding is_space_def by (simp only: inj_image_mem_iff [OF inj_of_char])
  also have "\<dots> \<longleftrightarrow> (of_char c :: nat) \<in> {9, 10, 11, 12, 13, 28, 29, 30, 31, 32}"
    by simp
  finally show ?thesis .
qed

lemma is_space_upper_char: "is_space (upper_char c) = is_space c"
  unfolding is_space_code of_char_upper_char by (auto simp: is_lower_def)

lemma py_split_not_Nil: "py_split sep s \<noteq> []"
  by (induction sep s rule: py_split.induct) (auto split: list.splits)

lemma hd_py_split: "sep \<noteq> [] \<Longrightarrow> hd (py_split sep s) = truncate_at sep s"
  by (induction sep s rule: py_split.induct) (auto split: list.splits simp: py_split_not_Nil)

lemma truncate_at_single: "truncate_at [c] s = takeWhile (\<lambda>x. x \<noteq> c) s"
  by (induction s) auto

lemma truncate_at_id: "\<not> py_in sub s \<Longrightarrow> truncate_at sub s = s"
  by (induction s) auto

lemma truncate_at_shorter:
  "sub \<noteq> [] \<Longrightarrow> py_in sub s \<Longrightarrow> length (truncate_at sub s) < length s"
  by (induction s) auto

lemma truncate_at_prefix: "prefix (truncate_at sub s) s"
  by (induction s) auto

lemma set_truncate_at: "set (truncate_at sub s) \<subseteq> set s"
  using truncate_at_prefix [of sub s] by (rule set_mono_prefix)

lemma rstrip_Nil: "rstrip [] = []"
  by (simp add: rstrip_def)

lemma rstrip_eq_Nil: "rstrip s = [] \<longleftrightarrow> (\<forall>c\<in>set s. is_space c)"
  by (simp add: rstrip_def dropWhile_eq_Nil_conv)

lemma rstrip_Cons:
  "rstrip (x # xs) = (if is_space x \<and> rstrip xs = [] then [] else x # rstrip xs)"
  by (auto simp: rstrip_def dropWhile_append dropWhile_eq_Nil_conv)

lemma rstrip_prefix: "prefix (rstrip s) s"
  by (induction s) (auto simp: rstrip_Nil rstrip_Cons)

lemma set_rstrip: "set (rstrip s) \<subseteq> set s"
  using rstrip_prefix [of s] by (rule set_mono_prefix)

lemma set_lstrip: "set (lstrip s) \<subseteq> set s"
  unfolding lstrip_def by (rule set_dropWhileD [THEN subsetI])

lemma set_strip: "set (strip s) \<subseteq> set s"
  unfolding strip_def using set_rstrip [of "lstrip s"] set_lstrip [of s] by blast

lemma lstrip_id_iff: "lstrip s = s \<longleftrightarrow> s = [] \<or> \<not> is_space (hd s)"
proof (cases s)
  case Nil
  then show ?thesis by (simp add: lstrip_def)
next
  case (Cons a list)
  have "dropWhile is_space list \<noteq> a # list"
    using length_dropWhile_le [of is_space list] by (auto dest: arg_cong [where f = length])
  with Cons show ?thesis by (simp add: lstrip_def)
qed

lemma lstrip_lstrip: "lstrip (lstrip s) = lstrip s"
  by (simp add: lstrip_def)

lemma lstrip_rstrip: "lstrip s = s \<Longrightarrow> lstrip (rstrip s) = rstrip s"
  unfolding lstrip_id_iff by (cases s) (auto simp: rstrip_Cons rstrip_Nil)

lemma rstrip_rstrip: "rstrip (rstrip s) = rstrip s"
  by (simp add: rstrip_def dropWhile_idem)

lemma rstrip_id_iff_length: "rstrip s = s \<longleftrightarrow> length (rstrip s) = length s"
proof
  assume "length (rstrip s) = length s"
  moreover obtain zs where "s = rstrip s @ zs"
    using rstrip_prefix [of s] by (auto simp: prefix_def)
  ultimately have "length (rstrip s) = length (rstrip s @ zs)"
    by simp
  then have "zs = []" by simp
  with \<open>s = rstrip s @ zs\<close> show "rstrip s = s" by simp
qed simp

lemma lstrip_strip: "lstrip (strip s) = strip s"
  unfolding strip_def by (rule lstrip_rstrip) (rule lstrip_lstrip)

lemma strip_no_lead: "lstrip s = s \<Longrightarrow> strip s = rstrip s"
  by (simp add: strip_def)

lemma strip_Nil: "strip [] = []"
  by (simp add: strip_def lstrip_def rstrip_def)

lemma strip_all_space: "\<forall>c\<in>set s. is_space c \<Longrightarrow> strip s = []"
  unfolding strip_def rstrip_eq_Nil using set_lstrip [of s] by blast

lemma lstrip_takeWhile: "lstrip s = s \<Longrightarrow> lstrip (takeWhile P s) = takeWhile P s"
  unfolding lstrip_id_iff by (cases s) auto

lemma lstrip_truncate_at: "lstrip s = s \<Longrightarrow> lstrip (truncate_at sub s) = truncate_at sub s"
  unfolding lstrip_id_iff by (cases s) auto

lemma lstrip_upper: "lstrip s = s \<Longrightarrow> lstrip (upper s) = upper s"
  unfolding lstrip_id_iff by (cases s) (auto simp: upper_def is_space_upper_char)

lemma upper_id: "\<forall>c\<in>set s. \<not> is_lower c \<Longrightarrow> upper s = s"
  by (induction s) (auto simp: upper_def upper_char_def)

lemma not_lower_upper: "c \<in> set (upper s) \<Longrightarrow> \<not> is_lower c"
  by (auto simp: upper_def not_lower_upper_char)

lemma comma_upper: "CHR '','' \<in> set (upper s) \<longleftrightarrow> CHR '','' \<in> set s"
proof -
  have "CHR '','' = upper_char c \<longleftrightarrow> c = CHR '',''" for c
    using upper_char_eq_comma [of c] by auto
  then show ?thesis by (auto simp: upper_def image_iff)
qed

lemma space_upper: "CHR '' '' \<in> set (upper s) \<longleftrightarrow> CHR '' '' \<in> set s"
proof -
  have "CHR '' '' = upper_char c \<longleftrightarrow> c = CHR '' ''" for c
    using upper_char_eq_space [of c] by auto
  then show ?thesis by (auto simp: upper_def image_iff)
qed

lemma normalize_Str:
  "normalize_product_to_key (Str s) =
     upper (truncate_at ''-HW'' (first_token (strip (before_first_comma (strip s)))))"
proof -
  have "(if py_in ''-HW'' t then hd (py_split ''-HW'' t) else t) = truncate_at ''-HW'' t" for t
    by (simp add: hd_py_split truncate_at_id)
  then show ?thesis
    by (simp add: normalize_product_to_key_def Let_def hd_py_split truncate_at_single
        first_token_def before_first_comma_def)
qed

lemma normalize_not_Str: "\<not> isinstance_str v \<Longrightarrow> normalize_product_to_key v = []"
  by (cases v) (simp_all add: normalize_product_to_key_def)

lemma normalize_no_comma: "CHR '','' \<notin> set (normalize_product_to_key v)"
proof (cases v)
  case (Str s)
  have "set (truncate_at ''-HW'' (first_token (strip (before_first_comma (strip s)))))
        \<subseteq> set (before_first_comma (strip s))"
    using set_truncate_at set_strip set_takeWhileD unfolding first_token_def by fast
  moreover have "CHR '','' \<notin> set (before_first_comma (strip s))"
    unfolding before_first_comma_def by (auto dest: set_takeWhileD)
  ultimately show ?thesis
    unfolding Str normalize_Str comma_upper by blast
qed (simp_all add: normalize_product_to_key_def)

lemma normalize_no_space: "CHR '' '' \<notin> set (normalize_product_to_key v)"
proof (cases v)
  case (Str s)
  have "set (truncate_at ''-HW'' (first_token t)) \<subseteq> set (first_token t)" for t
    by (rule set_truncate_at)
  moreover have "CHR '' '' \<notin> set (first_token t)" for t
    unfolding first_token_def by (auto dest: set_takeWhileD)
  ultimately show ?thesis
    unfolding Str normalize_Str space_upper by blast
qed (simp_all add: normalize_product_to_key_def)

lemma normalize_no_lower: "c \<in> set (normalize_product_to_key v) \<Longrightarrow> \<not> is_lower c"
proof (cases v)
  case (Str s)
  assume "c \<in> set (normalize_product_to_key v)"
  then show ?thesis
    unfolding Str normalize_Str by (rule not_lower_upper)
qed (simp_all add: normalize_product_to_key_def)

lemma normalize_lstrip: "lstrip (normalize_product_to_key v) = normalize_product_to_key v"
proof (cases v)
  case (Str s)
  show ?thesis
    unfolding Str normalize_Str first_token_def
    by (intro lstrip_upper lstrip_truncate_at lstrip_takeWhile lstrip_strip)
qed (simp_all add: normalize_product_to_key_def lstrip_def)

lemma normalize_twice:
  "normalize_product_to_key (Str (normalize_product_to_key v)) =
     truncate_at ''-HW'' (rstrip (normalize_product_to_key v))"
proof -
  define y where "y = normalize_product_to_key v"
  have nc: "CHR '','' \<notin> set y" and ns: "CHR '' '' \<notin> set y"
    and nl: "\<forall>c\<in>set y. \<not> is_lower c" and ls: "lstrip y = y"
    unfolding y_def
    by (simp_all add: normalize_no_comma normalize_no_space normalize_no_lower normalize_lstrip)
  have s1: "strip y = rstrip y"
    using ls by (rule strip_no_lead)
  have sub: "set (rstrip y) \<subseteq> set y"
    by (rule set_rstrip)
  have bc: "before_first_comma (rstrip y) = rstrip y"
    unfolding before_first_comma_def using nc sub by (auto simp: takeWhile_eq_all_conv)
  have s2: "strip (rstrip y) = rstrip y"
    by (simp add: strip_def lstrip_rstrip [OF ls] rstrip_rstrip)
  have ft: "first_token (rstrip y) = rstrip y"
    unfolding first_token_def using ns sub by (auto simp: takeWhile_eq_all_conv)
  have "\<forall>c\<in>set (truncate_at ''-HW'' (rstrip y)). \<not> is_lower c"
    using nl sub set_truncate_at [of "''-HW''" "rstrip y"] by blast
  then have up: "upper (truncate_at ''-HW'' (rstrip y)) = truncate_at ''-HW'' (rstrip y)"
    by (rule upper_id)
  show ?thesis
    unfolding y_def [symmetric] normalize_Str s1 bc s2 ft up ..
qed

lemma truncate_at_id_iff: "sub \<noteq> [] \<Longrightarrow> truncate_at sub s = s \<longleftrightarrow> \<not> py_in sub s"
  using truncate_at_shorter [of sub s] truncate_at_id [of sub s] by auto

section \<open>Key normalizer: results\<close>

text \<open>
  C3, as amended. On a string the normalizer is: trim; keep the text before the first
  comma; trim that text again; keep what precedes the first space; cut at the first
  "-HW"; uppercase. A string of whitespace only, the empty string and every value that is
  not a string give the empty key. The three examples of the specification hold.
\<close>

theorem normalize_product_to_key_retrim:
  "normalize_product_to_key (Str s) = spec_normalize_retrim s
   \<and> ((\<forall>c\<in>set s. is_space c) \<longrightarrow> normalize_product_to_key (Str s) = [])
   \<and> (\<not> isinstance_str v \<longrightarrow> normalize_product_to_key v = [])
   \<and> normalize_product_to_key (Str ''MX68-HW'') = ''MX68''
   \<and> normalize_product_to_key (Str []) = []
   \<and> normalize_product_to_key (Str ''mx68 cloud managed'') = ''MX68''"
proof -
  have "normalize_product_to_key (Str s) = spec_normalize_retrim s"
    by (simp add: normalize_Str spec_normalize_retrim_def)
  moreover have "normalize_product_to_key (Str s) = []" if "\<forall>c\<in>set s. is_space c"
  proof -
    have "strip s = []"
      using that by (rule strip_all_space)
    then show ?thesis
      by (simp add: normalize_Str before_first_comma_def first_token_def upper_def strip_Nil)
  qed
  moreover have "normalize_product_to_key (Str ''MX68-HW'') = ''MX68''"
    by code_simp
  moreover have "normalize_product_to_key (Str []) = []"
    by code_simp
  moreover have "normalize_product_to_key (Str ''mx68 cloud managed'') = ''MX68''"
    by code_simp
  ultimately show ?thesis
    using normalize_not_Str [of v] by blast
qed

theorem normalize_product_to_key_retrim_witness:
  "is_space (CHR '' '') \<and> is_space (CHR 0x09) \<and> \<not> isinstance_str NaN
   \<and> normalize_product_to_key (Str [CHR '' '', CHR 0x09]) = []
   \<and> normalize_product_to_key NaN = []"
proof -
  have h1: "\<forall>c\<in>set [CHR '' '', CHR 0x09]. is_space c"
    by (simp add: is_space_def)
  have h2: "\<not> isinstance_str NaN"
    by simp
  from normalize_product_to_key_retrim [of "[CHR '' '', CHR 0x09]" NaN] h1 h2
  have "normalize_product_to_key (Str [CHR '' '', CHR 0x09]) = []
        \<and> normalize_product_to_key NaN = []"
    by blast
  moreover have "is_space (CHR '' '') \<and> is_space (CHR 0x09)"
    by (simp add: is_space_def)
  ultimately show ?thesis
    using h2 by blast
qed

text \<open>
  C3 as the specification states it, without the second trim, fails: a tab before the
  first comma stays in the key of the specification and not in the key of the program.
\<close>

theorem normalize_product_to_key_spec_counterexample:
  "normalize_product_to_key (Str [CHR ''a'', CHR 0x09, CHR '','', CHR ''b'']) = ''A''
   \<and> spec_normalize [CHR ''a'', CHR 0x09, CHR '','', CHR ''b''] = [CHR ''A'', CHR 0x09]"
  by code_simp

text \<open>
  C7, as amended. Normalizing a key again gives the same key exactly when the key
  neither contains "-HW" nor ends in whitespace.
\<close>

theorem normalize_fixed_point_iff:
  "normalize_product_to_key (Str (normalize_product_to_key v)) = normalize_product_to_key v
   \<longleftrightarrow> \<not> py_in ''-HW'' (normalize_product_to_key v)
       \<and> rstrip (normalize_product_to_key v) = normalize_product_to_key v"
proof -
  define y where "y = normalize_product_to_key v"
  have "truncate_at ''-HW'' (rstrip y) = y \<longleftrightarrow> \<not> py_in ''-HW'' y \<and> rstrip y = y"
  proof
    assume eq: "truncate_at ''-HW'' (rstrip y) = y"
    have "length (truncate_at ''-HW'' (rstrip y)) \<le> length (rstrip y)"
      using truncate_at_prefix by (rule prefix_length_le)
    moreover have "length (rstrip y) \<le> length y"
      using rstrip_prefix by (rule prefix_length_le)
    ultimately have "length (rstrip y) = length y"
      using eq by simp
    then have r: "rstrip y = y"
      by (simp add: rstrip_id_iff_length)
    with eq have "truncate_at ''-HW'' y = y" by simp
    then have "\<not> py_in ''-HW'' y" by (simp add: truncate_at_id_iff)
    with r show "\<not> py_in ''-HW'' y \<and> rstrip y = y" by simp
  next
    assume "\<not> py_in ''-HW'' y \<and> rstrip y = y"
    then show "truncate_at ''-HW'' (rstrip y) = y" by (simp add: truncate_at_id)
  qed
  then show ?thesis
    unfolding y_def normalize_twice .
qed

theorem normalize_fixed_point_iff_witness:
  "\<not> py_in ''-HW'' (normalize_product_to_key (Str ''mx68 cloud managed''))
   \<and> rstrip (normalize_product_to_key (Str ''mx68 cloud managed''))
       = normalize_product_to_key (Str ''mx68 cloud managed'')
   \<and> normalize_product_to_key (Str (normalize_product_to_key (Str ''mx68 cloud managed'')))
       = normalize_product_to_key (Str ''mx68 cloud managed'')"
proof -
  have "\<not> py_in ''-HW'' (normalize_product_to_key (Str ''mx68 cloud managed''))"
    by code_simp
  moreover have "rstrip (normalize_product_to_key (Str ''mx68 cloud managed''))
                 = normalize_product_to_key (Str ''mx68 cloud managed'')"
    by code_simp
  ultimately show ?thesis
    using normalize_fixed_point_iff [of "Str ''mx68 cloud managed''"] by blast
qed

text \<open>
  C7 as stated fails: "-hw" in lower case is not cut, the uppercased key contains "-HW",
  and a second pass cuts it.
\<close>

theorem normalize_fixed_point_counterexample:
  "normalize_product_to_key (Str ''mx68-hw'') = ''MX68-HW''
   \<and> normalize_product_to_key (Str (normalize_product_to_key (Str ''mx68-hw''))) = ''MX68''"
  by code_simp

text \<open>
  C10, as amended. A key contains no lower-case ASCII letter, no comma and no space, and
  it does not begin with whitespace.
\<close>

theorem normalize_product_to_key_alphabet:
  "(\<forall>c\<in>set (normalize_product_to_key v). \<not> is_lower c \<and> c \<noteq> CHR '','' \<and> c \<noteq> CHR '' '')
   \<and> lstrip (normalize_product_to_key v) = normalize_product_to_key v"
  using normalize_no_comma [of v] normalize_no_space [of v] normalize_no_lower [of _ v]
    normalize_lstrip [of v]
  by blast

theorem normalize_product_to_key_alphabet_witness:
  "normalize_product_to_key (Str ''mx68 cloud managed'') = ''MX68''
   \<and> CHR ''M'' \<in> set ''MX68'' \<and> \<not> is_lower (CHR ''M'')
   \<and> \<not> is_lower (CHR ''X'') \<and> \<not> is_lower (CHR ''6'') \<and> \<not> is_lower (CHR ''8'')
   \<and> lstrip ''MX68'' = ''MX68''"
proof -
  have k: "normalize_product_to_key (Str ''mx68 cloud managed'') = ''MX68''"
    by code_simp
  show ?thesis
    using normalize_product_to_key_alphabet [of "Str ''mx68 cloud managed''"]
    unfolding k by simp
qed

text \<open>
  C10 as stated fails in its last part: a tab before the first space ends the key, which
  then differs from its own trim.
\<close>

theorem normalize_product_to_key_trim_counterexample:
  "normalize_product_to_key (Str [CHR ''a'', CHR 0x09, CHR '' '', CHR ''b''])
     = [CHR ''A'', CHR 0x09]
   \<and> strip (normalize_product_to_key (Str [CHR ''a'', CHR 0x09, CHR '' '', CHR ''b'']))
     = ''A''"
  by code_simp

section \<open>EoL table builder: results\<close>

lemma sublinks_of_acc:
  "foldl (\<lambda>sublinks a. case a of None \<Rightarrow> sublinks
            | Some href \<Rightarrow> if href \<noteq> [] then sublinks @ [href] else sublinks) acc td
   = acc @ filter (\<lambda>h. h \<noteq> []) (List.map_filter id td)"
  by (induction td arbitrary: acc) (auto simp: List.map_filter_simps split: option.splits)

lemma sublinks_of_eq: "sublinks_of td = filter (\<lambda>h. h \<noteq> []) (List.map_filter id td)"
  by (simp add: sublinks_of_def sublinks_of_acc)

lemma scrape_row_acc:
  "foldl (\<lambda>links td. let sublinks = sublinks_of td
                      in if sublinks \<noteq> [] then links @ [sublinks] else links) acc row
   = acc @ filter (\<lambda>l. l \<noteq> []) (map sublinks_of row)"
  by (induction row arbitrary: acc) (auto simp: Let_def)

lemma scrape_table_acc:
  "foldl (\<lambda>links row.
            foldl (\<lambda>links td. let sublinks = sublinks_of td
                               in if sublinks \<noteq> [] then links @ [sublinks] else links)
                  links row) acc table
   = acc @ filter (\<lambda>l. l \<noteq> []) (map sublinks_of (concat table))"
  by (induction table arbitrary: acc) (simp_all add: scrape_row_acc)

lemma scrape_links_eq:
  "scrape_links table = filter (\<lambda>l. l \<noteq> []) (map sublinks_of (concat table))"
  by (simp add: scrape_links_def scrape_table_acc)

lemma records_set_column:
  "records (set_column c vals df) = map (\<lambda>(r, v). r(c \<mapsto> v)) (zip (records df) vals)"
  by (simp add: set_column_def)

lemma attach_links_records:
  "records (attach_links links df) =
     map (\<lambda>(r, v). r(''Upgrade Path'' \<mapsto> v))
       (zip (records df) (map Links (take (length (records df)) links
          @ replicate (length (records df) - length links) [])))"
proof (cases "length links = length (records df)")
  case True
  then show ?thesis
    by (simp add: attach_links_def records_set_column)
next
  case False
  have "length (records df) - min (length links) (length (records df))
        = length (records df) - length links"
    by simp
  with False show ?thesis
    by (simp add: attach_links_def Let_def records_set_column)
qed

lemma attach_links_length: "length (records (attach_links links df)) = length (records df)"
  unfolding attach_links_records by simp

lemma attach_links_nth:
  assumes "i < length (records df)"
  shows "records (attach_links links df) ! i =
           (records df ! i)(''Upgrade Path'' \<mapsto> Links (if i < length links then links ! i else []))"
  unfolding attach_links_records using assms by (auto simp: nth_append)

lemma records_set_column_same:
  "records df = rs \<Longrightarrow> records (set_column c (map f rs) df) = map (\<lambda>r. r(c \<mapsto> f r)) rs"
  by (simp add: set_column_def zip_map2 zip_same_conv_map)

lemma columns_set_column: "set (columns (set_column c vals df)) = insert c (set (columns df))"
  by (auto simp: set_column_def)

lemma columns_attach_links:
  "set (columns (attach_links links df)) = insert ''Upgrade Path'' (set (columns df))"
  by (simp add: attach_links_def Let_def columns_set_column)

lemma fetch_eol_table_Inr:
  assumes "fetch_eol_table dfs table = Inr cat"
  shows "\<exists>df0 rest t. dfs = df0 # rest \<and> table = Some t \<and>
     records cat =
       map (\<lambda>r. r(''Upgrade Path'' \<mapsto> joined_upgrade_path r))
         (filter (\<lambda>r. cell r ''ProductKey'' \<noteq> Str [])
            (map (\<lambda>r. r(''ProductKey'' \<mapsto> product_key_of r))
               (concat (map expand_row (records (attach_links (scrape_links t) df0))))))"
proof -
  from assms obtain df0 rest where dfs: "dfs = df0 # rest"
    by (cases dfs) (simp_all add: fetch_eol_table_def)
  from assms dfs obtain t where table: "table = Some t"
    by (cases table) (simp_all add: fetch_eol_table_def split: if_splits)
  define eol_df where "eol_df = attach_links (scrape_links t) df0"
  define expanded where "expanded = concat (map expand_row (records eol_df))"
  define keyed where
    "keyed = set_column ''ProductKey'' (map product_key_of expanded)
               \<lparr>columns = columns eol_df, records = expanded\<rparr>"
  define kept where
    "kept = keyed\<lparr>records := filter (\<lambda>r. cell r ''ProductKey'' \<noteq> Str []) (records keyed)\<rparr>"
  have rk: "records keyed = map (\<lambda>r. r(''ProductKey'' \<mapsto> product_key_of r)) expanded"
    unfolding keyed_def by (rule records_set_column_same) simp
  have up: "''Upgrade Path'' \<in> set (columns kept)"
    by (simp add: kept_def keyed_def columns_set_column eol_df_def columns_attach_links)
  have "cat = set_column ''Upgrade Path'' (map joined_upgrade_path (records kept)) kept"
    using assms up unfolding dfs table fetch_eol_table_def
    by (simp add: Let_def eol_df_def [symmetric] expanded_def [symmetric]
        keyed_def [symmetric] kept_def [symmetric] split: if_splits)
  then have "records cat = map (\<lambda>r. r(''Upgrade Path'' \<mapsto> joined_upgrade_path r)) (records kept)"
    by (simp add: records_set_column_same)
  then show ?thesis
    using dfs table by (simp add: kept_def rk expanded_def eol_df_def)
qed

lemma ms120_parts:
  "product_parts ''MS120-8, MS120-8FP'' = [''MS120-8'', ''MS120-8FP'']"
  by code_simp

lemma ms120_key1: "normalize_product_to_key (Str ''MS120-8'') = ''MS120-8''"
  by code_simp

lemma ms120_key2: "normalize_product_to_key (Str ''MS120-8FP'') = ''MS120-8FP''"
  by code_simp

text \<open>
  C6, as amended. The link extraction yields one list per table cell that holds at least
  one link with a non-empty target, in the order of the cells in the markup; a cell or a
  row without a link yields nothing. The lists are attached to the parsed rows by
  position: row \<open>i\<close> gets list \<open>i\<close> when there is one and the empty list otherwise,
  lists beyond the last row are dropped, no other cell changes, and nothing fails.
\<close>

theorem scrape_links_per_linked_cell:
  "scrape_links table = filter (\<lambda>l. l \<noteq> []) (map sublinks_of (concat table))
   \<and> sublinks_of td = filter (\<lambda>h. h \<noteq> []) (List.map_filter id td)
   \<and> length (records (attach_links links eol_df)) = length (records eol_df)
   \<and> (\<forall>i < length (records eol_df).
        records (attach_links links eol_df) ! i =
          (records eol_df ! i)(''Upgrade Path'' \<mapsto>
             Links (if i < length links then links ! i else [])))"
  by (simp add: scrape_links_eq sublinks_of_eq attach_links_length attach_links_nth)

theorem scrape_links_per_linked_cell_witness:
  "(1::nat) < length (records \<lparr>columns = [''Product''],
       records = [[''Product'' \<mapsto> Str ''A''], [''Product'' \<mapsto> Str ''B'']]\<rparr>)
   \<and> records (attach_links [[''u'']] \<lparr>columns = [''Product''],
       records = [[''Product'' \<mapsto> Str ''A''], [''Product'' \<mapsto> Str ''B'']]\<rparr>) ! 1
     = [''Product'' \<mapsto> Str ''B'', ''Upgrade Path'' \<mapsto> Links []]"
  using scrape_links_per_linked_cell [of "[]" "[]" "[[''u'']]"
      "\<lparr>columns = [''Product''],
        records = [[''Product'' \<mapsto> Str ''A''], [''Product'' \<mapsto> Str ''B'']]\<rparr>",
      THEN conjunct2, THEN conjunct2, THEN conjunct2, THEN spec, of 1]
  by simp

text \<open>
  C6 as stated fails: of two table rows, the first without a link and the second with
  one, the extraction yields a single list, not one list per row, and that list is
  attached to the first parsed row.
\<close>

theorem scrape_links_row_counterexample:
  "scrape_links [[[]], [[Some ''u'']]] = [[''u'']]
   \<and> links_per_row [[[]], [[Some ''u'']]] = [[], [''u'']]
   \<and> map (\<lambda>r. (r ''Product'', r ''Upgrade Path''))
        (records (attach_links (scrape_links [[[]], [[Some ''u'']]])
           \<lparr>columns = [''Product''],
            records = [[''Product'' \<mapsto> Str ''A''], [''Product'' \<mapsto> Str ''B'']]\<rparr>))
      = [(Some (Str ''A''), Some (Links [''u''])), (Some (Str ''B''), Some (Links []))]"
  by code_simp

text \<open>
  C5, as amended. A row whose "Product" cell is "MS120-8, MS120-8FP" expands into exactly
  two rows, one per label, every other cell unchanged, and the two rows get the keys
  "MS120-8" and "MS120-8FP".
\<close>

theorem expand_row_ms120:
  "expand_row (r(''Product'' \<mapsto> Str ''MS120-8, MS120-8FP''))
     = [r(''Product'' \<mapsto> Str ''MS120-8''), r(''Product'' \<mapsto> Str ''MS120-8FP'')]
   \<and> map product_key_of (expand_row (r(''Product'' \<mapsto> Str ''MS120-8, MS120-8FP'')))
     = [Str ''MS120-8'', Str ''MS120-8FP'']"
proof -
  have e: "expand_row (r(''Product'' \<mapsto> Str ''MS120-8, MS120-8FP''))
     = [r(''Product'' \<mapsto> Str ''MS120-8''), r(''Product'' \<mapsto> Str ''MS120-8FP'')]"
    unfolding expand_row_def Let_def cell_def by (simp add: ms120_parts)
  show ?thesis
    unfolding e by (simp add: product_key_of_def cell_def ms120_key1 ms120_key2)
qed

text \<open>
  C5 as stated fails: the keys of the two expanded rows are not "MS120"; the normalizer
  cuts at a comma, a space or "-HW", and "MS120-8" has none.
\<close>

theorem expand_row_ms120_counterexample:
  "map product_key_of (expand_row [''Product'' \<mapsto> Str ''MS120-8, MS120-8FP''])
     = [Str ''MS120-8'', Str ''MS120-8FP'']
   \<and> Str ''MS120-8'' \<noteq> Str ''MS120'' \<and> Str ''MS120-8FP'' \<noteq> Str ''MS120''"
  by code_simp

text \<open>
  C8. Every row of a catalog that the builder returns has a non-empty key, the key of its
  "Product" cell; the keys of the catalog are the keys of the expanded rows with the
  empty ones left out.
\<close>

theorem catalog_product_key_nonempty:
  assumes "fetch_eol_table dfs table = Inr cat"
  shows "(\<forall>r\<in>set (records cat). \<exists>k. k \<noteq> [] \<and> r ''ProductKey'' = Some (Str k)
             \<and> k = normalize_product_to_key (cell r ''Product''))
     \<and> (\<exists>df0 rest t. dfs = df0 # rest \<and> table = Some t
           \<and> map (\<lambda>r. cell r ''ProductKey'') (records cat)
             = filter (\<lambda>k. k \<noteq> Str [])
                 (map product_key_of
                    (concat (map expand_row
                       (records (attach_links (scrape_links t) df0))))))"
proof -
  from fetch_eol_table_Inr [OF assms] obtain df0 rest t where
    dfs: "dfs = df0 # rest" and table: "table = Some t" and
    rec: "records cat =
       map (\<lambda>r. r(''Upgrade Path'' \<mapsto> joined_upgrade_path r))
         (filter (\<lambda>r. cell r ''ProductKey'' \<noteq> Str [])
            (map (\<lambda>r. r(''ProductKey'' \<mapsto> product_key_of r))
               (concat (map expand_row (records (attach_links (scrape_links t) df0))))))"
    by blast
  have "\<exists>k. k \<noteq> [] \<and> r ''ProductKey'' = Some (Str k)
           \<and> k = normalize_product_to_key (cell r ''Product'')"
    if "r \<in> set (records cat)" for r
    using that unfolding rec
    by (auto simp: cell_def product_key_of_def)
  moreover have "map (\<lambda>r. cell r ''ProductKey'') (records cat)
             = filter (\<lambda>k. k \<noteq> Str [])
                 (map product_key_of
                    (concat (map expand_row
                       (records (attach_links (scrape_links t) df0)))))"
    unfolding rec by (simp add: filter_map comp_def cell_def)
  ultimately show ?thesis
    using dfs table by blast
qed

theorem catalog_product_key_nonempty_witness:
  "\<exists>cat. fetch_eol_table
            [\<lparr>columns = [''Product''],
              records = [[''Product'' \<mapsto> Str ''MX68-HW''], [''Product'' \<mapsto> Str ''-HW'']]\<rparr>]
            (Some []) = Inr cat
     \<and> map (\<lambda>r. r ''ProductKey'') (records cat) = [Some (Str ''MX68'')]
     \<and> list_all (\<lambda>r. normalize_product_to_key (cell r ''Product'') \<noteq> []) (records cat)"
proof -
  define res where
    "res = fetch_eol_table
            [\<lparr>columns = [''Product''],
              records = [[''Product'' \<mapsto> Str ''MX68-HW''], [''Product'' \<mapsto> Str ''-HW'']]\<rparr>]
            (Some [])"
  have "\<not> isl res"
    unfolding res_def by code_simp
  then have r: "res = Inr (projr res)"
    by simp
  have k: "map (\<lambda>r. r ''ProductKey'') (records (projr res)) = [Some (Str ''MX68'')]"
    unfolding res_def by code_simp
  have "\<forall>r\<in>set (records (projr res)). \<exists>k. k \<noteq> [] \<and> r ''ProductKey'' = Some (Str k)
             \<and> k = normalize_product_to_key (cell r ''Product'')"
    using catalog_product_key_nonempty [OF r [unfolded res_def], THEN conjunct1]
    unfolding res_def [symmetric] .
  then have "list_all (\<lambda>r. normalize_product_to_key (cell r ''Product'') \<noteq> [])
          (records (projr res))"
    unfolding list_all_iff by blast
  with r k have "\<exists>cat. res = Inr cat
     \<and> map (\<lambda>r. r ''ProductKey'') (records cat) = [Some (Str ''MX68'')]
     \<and> list_all (\<lambda>r. normalize_product_to_key (cell r ''Product'') \<noteq> []) (records cat)"
    by (intro exI [of _ "projr res"] conjI)
  then show ?thesis
    unfolding res_def .
qed

section \<open>Inventory matcher: results\<close>

lemma value_counts_acc:
  "value_counts counts ks k =
     (if k \<in> set ks
      then Some (count_list ks k + (case counts k of None \<Rightarrow> 0 | Some n \<Rightarrow> n))
      else counts k)"
  by (induction ks arbitrary: counts) (auto split: option.splits)

lemma value_counts_empty:
  "value_counts Map.empty ks k = (if k \<in> set ks then Some (count_list ks k) else None)"
  by (simp add: value_counts_acc)

lemma count_list_map_filter:
  "count_list (map f (filter P xs)) k = length (filter (\<lambda>x. P x \<and> f x = k) xs)"
  by (induction xs) auto

lemma unit_count_eq:
  "unit_count devices k =
     count_list (map (\<lambda>d. upper (model d)) (filter (\<lambda>d. networkId d \<noteq> None) devices)) k"
  by (simp add: unit_count_def count_list_map_filter)

lemma one_le_count_list: "1 \<le> count_list xs k \<longleftrightarrow> k \<in> set xs"
proof -
  have "count_list xs k \<noteq> 0 \<longleftrightarrow> k \<in> set xs"
    by (simp add: count_list_0_iff)
  then show ?thesis by linarith
qed

lemma map_counts_value_counts:
  "map_counts (value_counts Map.empty ks) v =
     (case v of
        Str k \<Rightarrow> if 1 \<le> count_list ks k then Num (int (count_list ks k)) else NaN
      | _ \<Rightarrow> NaN)"
  unfolding one_le_count_list by (cases v) (simp_all add: map_counts_def value_counts_empty)

lemma map_counts_unit_count:
  "map_counts (value_counts Map.empty
       (map (\<lambda>d. upper (model d)) (filter (\<lambda>d. networkId d \<noteq> None) devices))) v =
     (case v of
        Str k \<Rightarrow> if 1 \<le> unit_count devices k then Num (int (unit_count devices k)) else NaN
      | _ \<Rightarrow> NaN)"
  unfolding map_counts_value_counts unit_count_eq ..

lemma matched_rows_filter:
  "filter (\<lambda>r. \<not> isna (cell r ''Total Units''))
     (map (\<lambda>r. r(''Total Units'' \<mapsto>
              map_counts (value_counts Map.empty
                 (map (\<lambda>d. upper (model d)) (filter (\<lambda>d. networkId d \<noteq> None) devices)))
                (cell r ''ProductKey''))) rows)
   = matched_rows \<lparr>columns = cols, records = rows\<rparr> devices"
  unfolding map_counts_unit_count
  by (induction rows)
     (auto simp: matched_rows_def cell_def split: pyval.splits option.splits)

lemma matched_rows_no_units:
  "filter (\<lambda>d. networkId d \<noteq> None) devices = [] \<Longrightarrow> matched_rows eol_df devices = []"
proof -
  assume a: "filter (\<lambda>d. networkId d \<noteq> None) devices = []"
  have "unit_count devices k = 0" for k
    unfolding unit_count_eq a by simp
  then show ?thesis
    by (auto simp: matched_rows_def split: pyval.splits)
qed

lemma matched_rows_cong: "matched_rows \<lparr>columns = cols, records = records df\<rparr> devices = matched_rows df devices"
  by (simp add: matched_rows_def)

lemma org_report_records:
  assumes "''ProductKey'' \<in> set (columns eol_df)"
  shows "\<exists>rep. org_report sort_values eol_df devices = Inr rep \<and>
     records rep = (if matched_rows eol_df devices = [] then []
                    else sort_values (matched_rows eol_df devices))"
proof (cases "filter (\<lambda>d. networkId d \<noteq> None) devices = []")
  case True
  then show ?thesis
    by (auto simp: org_report_def Let_def empty_frame_def matched_rows_no_units)
next
  case False
  then have ne: "devices \<noteq> []" by auto
  define final where
    "final = filter (\<lambda>r. \<not> isna (cell r ''Total Units''))
     (map (\<lambda>r. r(''Total Units'' \<mapsto>
              map_counts (value_counts Map.empty
                 (map (\<lambda>d. upper (model d)) (filter (\<lambda>d. networkId d \<noteq> None) devices)))
                (cell r ''ProductKey''))) (records eol_df))"
  have m: "final = matched_rows eol_df devices"
    unfolding final_def matched_rows_filter [where cols = "[]"] by (rule matched_rows_cong)
  have cols: "columns (set_column c vals df) \<noteq> []" for c vals df
    by (auto simp: set_column_def)
  show ?thesis
    using False ne assms
    by (simp add: org_report_def Let_def df_empty_def cols records_set_column_same
        final_def [symmetric] m del: not_None_eq)
qed

lemma stable_sort_desc_sorts: "sorts_by_units_desc stable_sort_desc"
proof -
  have "sorted (map (\<lambda>r. - total_units r) (sort_key (\<lambda>r. - total_units r) rows))" for rows
    by (rule sorted_sort_key)
  then have "sorted_wrt (\<lambda>a b. total_units b \<le> total_units a)
               (sort_key (\<lambda>r. - total_units r) rows)" for rows
    by (simp add: sorted_map)
  then show ?thesis
    by (simp add: sorts_by_units_desc_def stable_sort_desc_def)
qed

lemma set_matched_rows:
  "set (matched_rows eol_df devices) =
     {r(''Total Units'' \<mapsto> Num (int (unit_count devices k))) | r k.
        r \<in> set (records eol_df) \<and> cell r ''ProductKey'' = Str k \<and> 1 \<le> unit_count devices k}"
proof -
  have row: "x \<in> set (case cell r ''ProductKey'' of
                        Str k \<Rightarrow>
                          if 1 \<le> unit_count devices k
                          then [r(''Total Units'' \<mapsto> Num (int (unit_count devices k)))]
                          else []
                      | _ \<Rightarrow> [])
      \<longleftrightarrow> (\<exists>k. cell r ''ProductKey'' = Str k \<and> 1 \<le> unit_count devices k
             \<and> x = r(''Total Units'' \<mapsto> Num (int (unit_count devices k))))" for x r
    by (cases "cell r ''ProductKey''") auto
  have "x \<in> set (matched_rows eol_df devices) \<longleftrightarrow>
        (\<exists>r k. x = r(''Total Units'' \<mapsto> Num (int (unit_count devices k)))
           \<and> r \<in> set (records eol_df) \<and> cell r ''ProductKey'' = Str k
           \<and> 1 \<le> unit_count devices k)" for x
    unfolding matched_rows_def set_concat set_map UN_iff image_iff bex_simps row by blast
  then show ?thesis
    by blast
qed

lemma example_inventory_units: "unit_count example_inventory ''MX68'' = 2"
  by code_simp

text \<open>
  C1. Whatever sort the library provides, the units of a key are the devices that have a
  network and whose uppercased model is the key, a catalog row is in the report exactly
  when its key has at least one unit, and the example inventory gives the key "MX68" two
  units.
\<close>

theorem matcher_total_units:
  assumes "sorts_by_units_desc sort_values" and "''ProductKey'' \<in> set (columns eol_df)"
  shows "(\<exists>rep. org_report sort_values eol_df devices = Inr rep
      \<and> set (records rep) =
          {r(''Total Units'' \<mapsto> Num (int (unit_count devices k))) | r k.
             r \<in> set (records eol_df) \<and> cell r ''ProductKey'' = Str k
             \<and> 1 \<le> unit_count devices k})
    \<and> (\<exists>rep. org_report sort_values
                 \<lparr>columns = [''ProductKey''], records = [e(''ProductKey'' \<mapsto> Str ''MX68'')]\<rparr>
                 example_inventory = Inr rep
          \<and> records rep = [e(''ProductKey'' \<mapsto> Str ''MX68'', ''Total Units'' \<mapsto> Num 2)])"
proof -
  have perm: "mset (sort_values rows) = mset rows" for rows
    using assms(1) by (simp add: sorts_by_units_desc_def)
  have set_eq: "set (sort_values rows) = set rows" for rows
    using perm [of rows] by (rule mset_eq_setD)
  from org_report_records [OF assms(2), of sort_values devices]
  obtain rep where rep: "org_report sort_values eol_df devices = Inr rep"
    and recs: "records rep = (if matched_rows eol_df devices = [] then []
                    else sort_values (matched_rows eol_df devices))"
    by blast
  have "set (records rep) = set (matched_rows eol_df devices)"
    unfolding recs by (simp add: set_eq)
  with rep have first: "\<exists>rep. org_report sort_values eol_df devices = Inr rep
      \<and> set (records rep) =
          {r(''Total Units'' \<mapsto> Num (int (unit_count devices k))) | r k.
             r \<in> set (records eol_df) \<and> cell r ''ProductKey'' = Str k
             \<and> 1 \<le> unit_count devices k}"
    unfolding set_matched_rows by blast
  define cat where
    "cat = \<lparr>columns = [''ProductKey''], records = [e(''ProductKey'' \<mapsto> Str ''MX68'')]\<rparr>"
  have m: "matched_rows cat example_inventory
           = [e(''ProductKey'' \<mapsto> Str ''MX68'', ''Total Units'' \<mapsto> Num 2)]"
    unfolding matched_rows_def cat_def by (simp add: cell_def example_inventory_units)
  have one: "sort_values [x] = [x]" for x
    using perm [of "[x]"] by simp
  have "''ProductKey'' \<in> set (columns cat)"
    by (simp add: cat_def)
  from org_report_records [OF this, of sort_values example_inventory]
  have "\<exists>rep. org_report sort_values cat example_inventory = Inr rep
          \<and> records rep = [e(''ProductKey'' \<mapsto> Str ''MX68'', ''Total Units'' \<mapsto> Num 2)]"
    unfolding m by (simp add: one)
  with first show ?thesis
    unfolding cat_def by blast
qed

theorem matcher_total_units_witness:
  "sorts_by_units_desc stable_sort_desc
   \<and> ''ProductKey'' \<in> set (columns two_key_catalog)
   \<and> (\<exists>rep. org_report stable_sort_desc two_key_catalog example_inventory = Inr rep
        \<and> set (records rep) =
            {r(''Total Units'' \<mapsto> Num (int (unit_count example_inventory k))) | r k.
               r \<in> set (records two_key_catalog) \<and> cell r ''ProductKey'' = Str k
               \<and> 1 \<le> unit_count example_inventory k})
   \<and> map (\<lambda>r. (r ''ProductKey'', r ''Total Units''))
        (records (projr (org_report stable_sort_desc two_key_catalog example_inventory)))
      = [(Some (Str ''MX68''), Some (Num 2))]"
proof -
  have h: "''ProductKey'' \<in> set (columns two_key_catalog)"
    by (simp add: two_key_catalog_def)
  have ev: "map (\<lambda>r. (r ''ProductKey'', r ''Total Units''))
        (records (projr (org_report stable_sort_desc two_key_catalog example_inventory)))
      = [(Some (Str ''MX68''), Some (Num 2))]"
    by code_simp
  from matcher_total_units [OF stable_sort_desc_sorts h, of example_inventory Map.empty]
  have "\<exists>rep. org_report stable_sort_desc two_key_catalog example_inventory = Inr rep
        \<and> set (records rep) =
            {r(''Total Units'' \<mapsto> Num (int (unit_count example_inventory k))) | r k.
               r \<in> set (records two_key_catalog) \<and> cell r ''ProductKey'' = Str k
               \<and> 1 \<le> unit_count example_inventory k}"
    by (rule conjunct1)
  with stable_sort_desc_sorts h ev show ?thesis
    by (intro conjI)
qed

section \<open>Risk classifier: results\<close>

lemma row_highlight_date:
  "v = Timestamp d \<or> v = DateValue d \<Longrightarrow>
   row_highlight strptime today v =
     Inr (if d - today < 0 then Red else if d - today \<le> 365 then Yellow else NoHighlight)"
  by (auto simp: row_highlight_def parse_end_of_support_def Let_def)

lemma row_highlight_unparsed:
  assumes "strip (py_str c) = []
           \<or> try_formats strptime (strip (py_str c))
                [''%b %d, %Y'', ''%B %d, %Y'', ''%Y-%m-%d''] = None"
  shows "row_highlight strptime today (CellValue c) = Inr NoHighlight"
  using assms
  by (auto simp: row_highlight_def parse_end_of_support_def Let_def simp del: try_formats.simps)

lemma row_highlight_parsed:
  assumes "strip (py_str c) \<noteq> []"
    and "try_formats strptime (strip (py_str c))
           [''%b %d, %Y'', ''%B %d, %Y'', ''%Y-%m-%d''] = Some (ADate d)"
  shows "row_highlight strptime today (CellValue c) =
           Inr (if d - today < 0 then Red else if d - today \<le> 365 then Yellow
                else NoHighlight)"
  using assms
  by (simp add: row_highlight_def parse_end_of_support_def Let_def del: try_formats.simps)

text \<open>
  C2. The claim holds on a \<^verbatim>\<open>Timestamp\<close>, a \<^verbatim>\<open>date\<close> and a text, as the three
  lemmas above show, and the code breaks it on a \<^verbatim>\<open>datetime\<close>: the test for \<^verbatim>\<open>date\<close> in
  line 236 comes first and holds for a \<^verbatim>\<open>datetime\<close> too, so the conversion of line 240
  is never reached, the value is returned as it came, and the subtraction of
  \<^verbatim>\<open>today\<close> in line 387 raises TypeError whatever the two days are.
\<close>

theorem row_highlight_datetime_raises:
  "parse_end_of_support strptime (DateTimeValue d) = Some (ADateTime d)
   \<and> row_highlight strptime today (DateTimeValue d) = Inl TypeError"
  by (simp add: row_highlight_def parse_end_of_support_def)

section \<open>Table export: results\<close>



















end
